theory Spec2Isabelle
  imports Complex_Main "HOL-Library.Sublist"
begin

section \<open>Data model of \<open>moonraker/components/spoolman.py\<close>\<close>

text \<open>
  The component is the class \<open>SpoolManager\<close>. Its attributes that the handlers read or
  assign become the fields of a record; every handler is a function from the state (and
  the inputs it awaits) to the effects it performs, in order, and the state it leaves.

  Conventions of the embedding:
  \<^item> Python floats are idealised as \<^typ>\<open>real\<close>: no rounding, no NaN, no infinities.
  \<^item> A handler runs atomically: what other tasks could do while it is suspended at an
    \<open>await\<close> is not modelled, and neither are the two \<open>asyncio.Lock\<close> objects.
  \<^item> The reply of the remote service to the (at most one) HTTP request a handler issues
    is an argument of the handler; it is consulted only on the path that issues the
    request.
  \<^item> \<open>eventloop.create_task(coro)\<close> is the effect \<open>CreateTask\<close>: the coroutine is
    recorded, not run.
  \<^item> \<open>raise\<close> is the \<open>Inl\<close> branch of a sum.
\<close>

datatype json =
    JNull
  | JBool bool
  | JInt int
  | JFloat real
  | JString string
  | JArray "json list"
  | JObject "(string \<times> json) list"

text \<open>
  \<open>HttpResponse\<close> is defined in \<open>http_client.py\<close>, which is not among the sources. The
  handlers only call \<open>status_code\<close>, \<open>has_error()\<close>, \<open>raise_for_status()\<close> and
  \<open>json()\<close>; the first two and the decoded body are taken as independent fields.
\<close>

record http_response =
  status_code :: int
  has_error :: bool
  resp_json :: json

datatype error =
    ServerError string "int option"  \<comment> \<open>\<open>self.server.error(msg)\<close> and \<open>self.server.error(msg, code)\<close>\<close>
  | HTTPError int                    \<comment> \<open>raised by \<open>response.raise_for_status()\<close>\<close>
  | JSONDecodeError                  \<comment> \<open>raised by \<open>jsonw.loads\<close>\<close>
  | AttributeError                   \<comment> \<open>\<open>.get\<close> on a value that is not a dict\<close>

text \<open>The argument of \<open>set_active_spool\<close>: \<open>Union[int, Sentinel, None]\<close>.\<close>

datatype spool_arg = MISSING | Given "int option"

datatype task = SetActiveSpoolTask spool_arg

datatype http_request =
    UseLength int real                   \<comment> \<open>\<open>PUT {spoolman_url}/v1/spool/{id}/use\<close>, body \<open>use_length\<close>\<close>
  | GetSpool int                         \<comment> \<open>\<open>GET {spoolman_url}/v1/spool/{id}\<close>\<close>
  | Forward string string "json option"  \<comment> \<open>the proxy: method, full url, body\<close>

datatype log_msg =
    NoActiveSpool
  | SendingUsage int real
  | SpoolNotFound "int option"
  | FailedUpdate int http_response
  | AlreadySet "int option"
  | SettingActive "int option"
  | SyncElapsed
  | CheckFailed http_response
  | FoundSpool int
  | InitialEpos "real option"
  | UnableToSubscribe
  | Proxying string string

datatype effect =
    Log log_msg
  | Http http_request
  | DbInsert "int option"     \<comment> \<open>\<open>database.insert_item(DB_NAMESPACE, ACTIVE_SPOOL_KEY, spool_id)\<close>\<close>
  | SendEvent "int option"    \<comment> \<open>\<open>server.send_event("spoolman:active_spool_set", ...)\<close>\<close>
  | CreateTask task

record spool_manager =
  spoolman_url :: string
  sync_rate_seconds :: int
  last_sync_time :: real      \<comment> \<open>a \<open>datetime\<close>, in seconds\<close>
  ws_connected :: bool
  spool_id :: "int option"
  extruded :: real
  error_logged :: bool        \<comment> \<open>\<open>_error_logged\<close>\<close>
  highest_epos :: real        \<comment> \<open>\<open>_highest_epos\<close>\<close>

text \<open>
  A status dictionary of the machine controller, as far as the component reads it:
  objects by name, each a dictionary of fields holding lists of floats.
\<close>

type_synonym status = "(string \<times> (string \<times> real list) list) list"

section \<open>The usage accumulator\<close>

text \<open>
  \<open>position = status.get("toolhead", {}).get("position", [])\<close>;
  \<open>return position[3] if len(position) > 3 else None\<close>.
\<close>

definition eposition_from_status :: "status \<Rightarrow> real option" where
  "eposition_from_status st =
     (let position =
        (case map_of (case map_of st ''toolhead'' of None \<Rightarrow> [] | Some th \<Rightarrow> th) ''position'' of
           None \<Rightarrow> []
         | Some p \<Rightarrow> p)
      in if length position > 3 then Some (position ! 3) else None)"

text \<open>
  The test \<open>epos and epos > self._highest_epos\<close>: \<open>None\<close> and \<open>0.0\<close> are both falsy.
\<close>

definition advances :: "real option \<Rightarrow> spool_manager \<Rightarrow> bool" where
  "advances epos s =
     (case epos of None \<Rightarrow> False | Some e \<Rightarrow> e \<noteq> 0 \<and> e > highest_epos s)"

text \<open>
  The body of \<open>async with self.extruded_lock\<close> in \<open>_handle_status_update\<close>:
  \<open>self.extruded += epos - self._highest_epos; self._highest_epos = epos\<close>.
\<close>

definition accumulate :: "real \<Rightarrow> spool_manager \<Rightarrow> spool_manager" where
  "accumulate e s = s\<lparr>extruded := extruded s + (e - highest_epos s), highest_epos := e\<rparr>"

text \<open>
  The accumulation block of \<open>_handle_status_update\<close> alone (the test and the locked
  body, without the sync check that follows inside the same \<open>if\<close>).
\<close>

definition observe :: "real option \<Rightarrow> spool_manager \<Rightarrow> spool_manager" where
  "observe epos s = (case epos of
       None \<Rightarrow> s
     | Some e \<Rightarrow> if advances epos s then accumulate e s else s)"

section \<open>The active resource store\<close>

text \<open>\<open>track_filament_usage\<close>: the flush of the pending amount.\<close>

definition track_filament_usage ::
    "http_response \<Rightarrow> spool_manager \<Rightarrow> effect list \<times> spool_manager" where
  "track_filament_usage response s =
     (case spool_id s of
        None \<Rightarrow> ([Log NoActiveSpool], s)
      | Some sid \<Rightarrow>
          if extruded s > 0 \<and> ws_connected s then
            (let used_length = extruded s;
                 sent = [Log (SendingUsage sid used_length), Http (UseLength sid used_length)]
             in if has_error response then
                  (if status_code response = 404 then
                     (sent @ [Log (SpoolNotFound (spool_id s)),
                              CreateTask (SetActiveSpoolTask MISSING)],
                      s\<lparr>error_logged := False\<rparr>)
                   else if \<not> error_logged s then
                     (sent @ [Log (FailedUpdate sid response)], s\<lparr>error_logged := True\<rparr>)
                   else (sent, s))
                else (sent, s\<lparr>error_logged := False, extruded := 0\<rparr>))
          else ([], s))"

text \<open>\<open>set_active_spool\<close>, under \<open>spool_lock\<close>.\<close>

definition set_active_spool ::
    "spool_arg \<Rightarrow> http_response \<Rightarrow> spool_manager \<Rightarrow> effect list \<times> spool_manager" where
  "set_active_spool arg response s =
     (let new_id = (case arg of MISSING \<Rightarrow> None | Given i \<Rightarrow> i);
          deleted_spool = (case arg of MISSING \<Rightarrow> True | Given i \<Rightarrow> False)
      in if spool_id s = new_id then ([Log (AlreadySet new_id)], s)
         else
           (let (effs, s1) =
                  (if \<not> deleted_spool then
                     (if spool_id s \<noteq> None then track_filament_usage response s
                      else if new_id \<noteq> None then ([], s\<lparr>extruded := 0\<rparr>)
                      else ([], s))
                   else ([], s))
            in (effs @ [DbInsert new_id, SendEvent new_id, Log (SettingActive new_id)],
                s1\<lparr>spool_id := new_id\<rparr>)))"

text \<open>
  \<open>_handle_status_update(status, _)\<close>. \<open>now\<close> is \<open>datetime.datetime.now()\<close>, read after
  the accumulation; the sync check is inside the \<open>if\<close> that tests the sample.
\<close>

definition handle_status_update ::
    "status \<Rightarrow> real \<Rightarrow> http_response \<Rightarrow> spool_manager \<Rightarrow> effect list \<times> spool_manager" where
  "handle_status_update st now response s =
     (let epos = eposition_from_status st
      in case epos of
           None \<Rightarrow> ([], s)
         | Some e \<Rightarrow>
             if advances epos s then
               (let s1 = accumulate e s;
                    difference = now - last_sync_time s1
                in if difference > real_of_int (sync_rate_seconds s1) then
                     (let s2 = s1\<lparr>last_sync_time := now\<rparr>;
                          (effs, s3) = track_filament_usage response s2
                      in (Log SyncElapsed # effs, s3))
                   else ([], s1))
             else ([], s))"

text \<open>
  \<open>_handle_klippy_ready\<close>. \<open>result\<close> is what \<open>klippy_apis.subscribe_objects\<close> returned.
  Nothing is assigned before the \<open>raise\<close>, so the state of the \<open>Inl\<close> branch is the
  state before the call.
\<close>

definition handle_klippy_ready ::
    "status \<Rightarrow> spool_manager \<Rightarrow> effect list \<times> (error + spool_manager)" where
  "handle_klippy_ready result s =
     (let initial_e_pos = eposition_from_status result
      in case initial_e_pos of
           Some e \<Rightarrow> ([Log (InitialEpos initial_e_pos)], Inr (s\<lparr>highest_epos := e\<rparr>))
         | None \<Rightarrow>
             ([Log (InitialEpos initial_e_pos), Log UnableToSubscribe],
              Inl (ServerError ''Unable to subscribe to e position'' None)))"

section \<open>The liveness check and the event decoder\<close>

text \<open>
  \<open>_check_spool_deleted\<close>. The 404 branch awaits \<open>set_active_spool(Sentinel.MISSING)\<close>
  inline; that call issues no request of its own, so the reply it is given is never read.
\<close>

definition check_spool_deleted ::
    "http_response \<Rightarrow> spool_manager \<Rightarrow> effect list \<times> spool_manager" where
  "check_spool_deleted response s =
     (case spool_id s of
        None \<Rightarrow> ([], s)
      | Some sid \<Rightarrow>
          if status_code response = 404 then
            (let (effs, s1) = set_active_spool MISSING response s
             in ([Http (GetSpool sid), Log (SpoolNotFound (spool_id s))] @ effs, s1))
          else if has_error response then
            ([Http (GetSpool sid), Log (CheckFailed response)], s)
          else ([Http (GetSpool sid), Log (FoundSpool sid)], s))"

text \<open>
  Python's \<open>==\<close> between a decoded JSON value (or \<open>None\<close> for a missing key) and a
  string, respectively an int: \<open>1 == 1.0\<close> and \<open>True == 1\<close> hold in Python.
\<close>

definition py_eq_str :: "json option \<Rightarrow> string \<Rightarrow> bool" where
  "py_eq_str v t = (case v of Some (JString u) \<Rightarrow> u = t | _ \<Rightarrow> False)"

definition py_eq_int :: "json option \<Rightarrow> int \<Rightarrow> bool" where
  "py_eq_int v i = (case v of
       Some (JInt n) \<Rightarrow> n = i
     | Some (JFloat x) \<Rightarrow> x = real_of_int i
     | Some (JBool b) \<Rightarrow> (if b then 1 else 0) = i
     | _ \<Rightarrow> False)"

text \<open>
  \<open>_decode_message\<close> after \<open>event = jsonw.loads(message)\<close>. \<open>event.get\<close> and
  \<open>payload.get\<close> exist on a dict only; on any other value the attribute lookup raises.
\<close>

definition decode_event :: "json \<Rightarrow> spool_manager \<Rightarrow> error + effect list" where
  "decode_event event s = (case event of
       JObject ev \<Rightarrow>
         if \<not> py_eq_str (map_of ev ''resource'') ''spool'' then Inr []
         else (case spool_id s of
                 None \<Rightarrow> Inr []
               | Some sid \<Rightarrow>
                   if py_eq_str (map_of ev ''type'') ''deleted'' then
                     (case (case map_of ev ''payload'' of None \<Rightarrow> JObject [] | Some p \<Rightarrow> p) of
                        JObject payload \<Rightarrow>
                          if py_eq_int (map_of payload ''id'') sid
                          then Inr [CreateTask (SetActiveSpoolTask MISSING)]
                          else Inr []
                      | _ \<Rightarrow> Inl AttributeError)
                   else Inr [])
     | _ \<Rightarrow> Inl AttributeError)"

text \<open>
  \<open>_decode_message(message)\<close>. \<open>jsonw.loads\<close> is defined in \<open>utils/json_wrapper.py\<close>,
  which is not among the sources: the decoder is a parameter, and may raise.
\<close>

definition decode_message ::
    "(string \<Rightarrow> error + json) \<Rightarrow> string \<Rightarrow> spool_manager \<Rightarrow> error + effect list" where
  "decode_message loads message s =
     (case loads message of Inl e \<Rightarrow> Inl e | Inr event \<Rightarrow> decode_event event s)"

section \<open>The proxy gateway\<close>

text \<open>
  \<open>_proxy_spoolman_request\<close>, with the arguments \<open>web_request\<close> yields: \<open>method\<close> and
  \<open>path\<close> strings, \<open>query\<close> and \<open>body\<close> optional. The function assigns no attribute; the
  state is returned so that this can be stated.

  Modelled from the spec: \<open>raise_for_status()\<close> and \<open>json()\<close> of the absent
  \<open>HttpResponse\<close>, as "return the decoded response body, surfacing any non-success HTTP
  status as an error to the caller".
\<close>

definition proxy_spoolman_request ::
    "string \<Rightarrow> string \<Rightarrow> string option \<Rightarrow> json option \<Rightarrow> http_response \<Rightarrow> spool_manager
       \<Rightarrow> effect list \<times> spool_manager \<times> (error + json)" where
  "proxy_spoolman_request method path query body response s =
     (if method \<notin> set [''GET'', ''POST'', ''PUT'', ''PATCH'', ''DELETE''] then
        ([], s, Inl (ServerError (''Invalid HTTP method: '' @ method) None))
      else if body \<noteq> None \<and> method = ''GET'' then
        ([], s, Inl (ServerError ''GET requests cannot have a body'' None))
      else if length path < 4 \<or> take 4 path \<noteq> ''/v1/'' then
        ([], s, Inl (ServerError ''Invalid path, must start with the API version, e.g. /v1'' None))
      else
        (let query' = (case query of Some q \<Rightarrow> ''?'' @ q | None \<Rightarrow> '''');
             full_url = spoolman_url s @ path @ query'
         in if \<not> ws_connected s then
              ([], s, Inl (ServerError ''Spoolman server not available'' (Some 503)))
            else
              ([Log (Proxying method full_url), Http (Forward method full_url body)], s,
               if has_error response then Inl (HTTPError (status_code response))
               else Inr (resp_json response))))"

section \<open>Runs, reference definitions and example states\<close>

text \<open>
  The attributes \<open>__init__\<close> assigns: nothing selected, nothing pending, not connected,
  highest position 0. \<open>now\<close> is \<open>datetime.datetime.now()\<close> at construction.
\<close>

definition init :: "string \<Rightarrow> int \<Rightarrow> real \<Rightarrow> spool_manager" where
  "init url rate now =
     \<lparr>spoolman_url = url, sync_rate_seconds = rate, last_sync_time = now,
      ws_connected = False, spool_id = None, extruded = 0, error_logged = False,
      highest_epos = 0\<rparr>"

text \<open>The accumulation block run on a sequence of position samples, in order.\<close>

fun observe_all :: "spool_manager \<Rightarrow> real list \<Rightarrow> spool_manager" where
  "observe_all s [] = s"
| "observe_all s (p # ps) = observe_all (observe (Some p) s) ps"

text \<open>
  The specification's words: the sum of the forward deltas, a sample counting for
  "position minus previous highest position" only when it exceeds the highest position
  seen so far (\<open>h\<close>); and that highest position itself.
\<close>

fun forward_deltas :: "real \<Rightarrow> real list \<Rightarrow> real" where
  "forward_deltas h [] = 0"
| "forward_deltas h (p # ps) =
     (if p > h then (p - h) + forward_deltas p ps else forward_deltas h ps)"

fun highest_seen :: "real \<Rightarrow> real list \<Rightarrow> real" where
  "highest_seen h [] = h"
| "highest_seen h (p # ps) = highest_seen (max h p) ps"

text \<open>
  The position handler run on a sequence of status updates, each with the time \<open>now()\<close>
  returns during it and the reply a flush would receive.
\<close>

fun run_updates ::
    "spool_manager \<Rightarrow> (status \<times> real \<times> http_response) list \<Rightarrow> spool_manager" where
  "run_updates s [] = s"
| "run_updates s ((st, now, r) # evs) =
     run_updates (snd (handle_status_update st now r s)) evs"

text \<open>Replies of the remote service and states used as concrete inputs.\<close>

definition ok_response :: http_response where
  "ok_response = \<lparr>status_code = 200, has_error = False, resp_json = JNull\<rparr>"

definition error_response :: "int \<Rightarrow> http_response" where
  "error_response code = \<lparr>status_code = code, has_error = True, resp_json = JNull\<rparr>"

text \<open>Connected, spool 1 selected, 5 mm pending, last sync at time 0, sync rate 5 s.\<close>

definition tracking :: spool_manager where
  "tracking = (init [] 5 0)\<lparr>ws_connected := True, spool_id := Some 1, extruded := 5,
                             highest_epos := 5\<rparr>"

definition toolhead_at :: "real \<Rightarrow> status" where
  "toolhead_at e = [(''toolhead'', [(''position'', [0, 0, 0, e])])]"

text \<open>Classifying effects.\<close>

fun is_http :: "effect \<Rightarrow> bool" where
  "is_http (Http r) = True"
| "is_http e = False"




text \<open>The event loop running a task that \<open>create_task\<close> recorded.\<close>

fun run_task :: "task \<Rightarrow> http_response \<Rightarrow> spool_manager \<Rightarrow> effect list \<times> spool_manager" where
  "run_task (SetActiveSpoolTask arg) response s = set_active_spool arg response s"

text \<open>
  The specification's words for the event decoder: a deletion event "whose payload
  identifies the currently selected resource", for the tracked resource type; and the
  shape of event the decoder is written for, a payload that is absent or an object.
\<close>

definition payload_of :: "(string \<times> json) list \<Rightarrow> (string \<times> json) list" where
  "payload_of ev = (case map_of ev ''payload'' of Some (JObject p) \<Rightarrow> p | _ \<Rightarrow> [])"

definition payload_is_object :: "(string \<times> json) list \<Rightarrow> bool" where
  "payload_is_object ev =
     (case map_of ev ''payload'' of None \<Rightarrow> True | Some (JObject p) \<Rightarrow> True | _ \<Rightarrow> False)"

text \<open>
  The guards under which \<open>_decode_message\<close> reads the payload: the resource is the
  tracked type, a spool is selected and the event type is "deleted".
\<close>

definition payload_consulted :: "(string \<times> json) list \<Rightarrow> spool_manager \<Rightarrow> bool" where
  "payload_consulted ev s =
     (py_eq_str (map_of ev ''resource'') ''spool'' \<and> spool_id s \<noteq> None \<and>
      py_eq_str (map_of ev ''type'') ''deleted'')"

definition deletes_selected :: "(string \<times> json) list \<Rightarrow> spool_manager \<Rightarrow> bool" where
  "deletes_selected ev s =
     (py_eq_str (map_of ev ''resource'') ''spool'' \<and>
      py_eq_str (map_of ev ''type'') ''deleted'' \<and>
      (case spool_id s of None \<Rightarrow> False | Some sid \<Rightarrow> py_eq_int (map_of (payload_of ev) ''id'') sid))"

section \<open>The accumulator: forward deltas\<close>

text \<open>
  Without a flush, the handler leaves the state the accumulation block leaves, and
  performs no effect.
\<close>

lemma handle_status_update_no_sync:
  assumes "\<not> (advances (eposition_from_status st) s \<and>
              now - last_sync_time s > real_of_int (sync_rate_seconds s))"
  shows "handle_status_update st now response s = ([], observe (eposition_from_status st) s)"
  using assms
  by (auto simp: handle_status_update_def observe_def accumulate_def Let_def advances_def
           split: option.splits)

lemma observe_all_sum:
  "0 \<le> highest_epos s \<Longrightarrow>
   extruded (observe_all s ps) = extruded s + forward_deltas (highest_epos s) ps \<and>
   highest_epos (observe_all s ps) = highest_seen (highest_epos s) ps"
proof (induction ps arbitrary: s)
  case Nil
  then show ?case by simp
next
  case (Cons p ps)
  show ?case
  proof (cases "p > highest_epos s")
    case True
    with Cons.prems have adv: "advances (Some p) s"
      by (simp add: advances_def)
    have nn: "0 \<le> highest_epos (accumulate p s)"
      using True Cons.prems by (simp add: accumulate_def)
    from Cons.IH[OF nn] adv True show ?thesis
      by (simp add: observe_def accumulate_def max_def)
  next
    case False
    then have "\<not> advances (Some p) s"
      by (simp add: advances_def)
    with Cons.IH[OF Cons.prems] False show ?thesis
      by (simp add: observe_def max_def)
  qed
qed

lemma observe_not_above:
  "p \<le> highest_epos s \<Longrightarrow> observe (Some p) s = s"
  by (simp add: observe_def advances_def)

text \<open>
  Where the equality of claim C1 does hold: on an accumulator whose highest position
  is not negative, as a fresh one is, the accumulation block leaves the sum of the
  forward deltas pending (\<open>observe_all_sum\<close>), and a sample that is equal to or below
  the highest position changes nothing (\<open>observe_not_above\<close>).

  Claim C1 does not hold of the handler at a negative highest position, which
  \<open>_handle_klippy_ready\<close> installs when the controller reports one. From the highest
  position -5, the sample 0.0 exceeds the highest position seen so far, so its forward
  delta is 5; the handler's test \<open>epos and epos > self._highest_epos\<close> takes 0.0 for
  false, adds nothing and leaves the highest position at -5. (The ready handler tests
  the same value with \<open>is not None\<close>.) The scenario of the specification, on a fresh
  accumulator, runs as the claim says: 20 pending, highest position 20.
\<close>

theorem zero_sample_dropped_below_zero_baseline:
  "handle_klippy_ready (toolhead_at (- 5)) (init [] 5 0) =
     ([Log (InitialEpos (Some (- 5)))], Inr ((init [] 5 0)\<lparr>highest_epos := - 5\<rparr>)) \<and>
   handle_status_update (toolhead_at 0) 1 ok_response ((init [] 5 0)\<lparr>highest_epos := - 5\<rparr>) =
     ([], (init [] 5 0)\<lparr>highest_epos := - 5\<rparr>) \<and>
   extruded (run_updates ((init [] 5 0)\<lparr>highest_epos := - 5\<rparr>)
               [(toolhead_at 0, 1, ok_response)]) = 0 \<and>
   forward_deltas (- 5) [0] = 5 \<and>
   extruded (run_updates (init [] 5 0)
               [(toolhead_at 10, 1, ok_response), (toolhead_at 15, 2, ok_response),
                (toolhead_at 12, 3, ok_response), (toolhead_at 20, 4, ok_response)]) = 20 \<and>
   highest_epos (run_updates (init [] 5 0)
               [(toolhead_at 10, 1, ok_response), (toolhead_at 15, 2, ok_response),
                (toolhead_at 12, 3, ok_response), (toolhead_at 20, 4, ok_response)]) = 20 \<and>
   forward_deltas 0 [10, 15, 12, 20] = 20"
  by (simp add: handle_klippy_ready_def handle_status_update_def eposition_from_status_def
                toolhead_at_def init_def advances_def accumulate_def Let_def)

section \<open>Flush: transient failures\<close>







section \<open>Flush: when nothing is sent\<close>

text \<open>
  Claim C3. A flush with no spool selected, or with a pending amount that is not
  greater than zero, or while not connected, sends no request and leaves the whole
  state, the pending amount included, as it was.
\<close>

theorem flush_noop_without_preconditions:
  assumes "spool_id s = None \<or> \<not> extruded s > 0 \<or> \<not> ws_connected s"
  shows "snd (track_filament_usage r s) = s \<and>
         \<not> list_ex is_http (fst (track_filament_usage r s))"
  using assms
  by (auto simp: track_filament_usage_def split: option.splits)

theorem flush_noop_without_preconditions_witness:
  "\<not> ws_connected (tracking\<lparr>ws_connected := False\<rparr>) \<and>
   snd (track_filament_usage ok_response (tracking\<lparr>ws_connected := False\<rparr>)) =
     tracking\<lparr>ws_connected := False\<rparr> \<and>
   \<not> list_ex is_http (fst (track_filament_usage ok_response (tracking\<lparr>ws_connected := False\<rparr>))) \<and>
   spool_id (init [] 5 0) = None \<and>
   snd (track_filament_usage ok_response (init [] 5 0)) = init [] 5 0 \<and>
   extruded (tracking\<lparr>extruded := 0\<rparr>) = 0 \<and>
   snd (track_filament_usage ok_response (tracking\<lparr>extruded := 0\<rparr>)) = tracking\<lparr>extruded := 0\<rparr>"
proof -
  have a: "\<not> ws_connected (tracking\<lparr>ws_connected := False\<rparr>)"
    by simp
  have b: "spool_id (init [] 5 0) = None"
    by (simp add: init_def)
  have c: "\<not> extruded (tracking\<lparr>extruded := 0\<rparr>) > 0"
    by simp
  from flush_noop_without_preconditions[of "tracking\<lparr>ws_connected := False\<rparr>" ok_response]
       flush_noop_without_preconditions[of "init [] 5 0" ok_response]
       flush_noop_without_preconditions[of "tracking\<lparr>extruded := 0\<rparr>" ok_response]
       a b c
  show ?thesis
    by simp
qed

section \<open>Not found: clearing the active spool\<close>

lemma clear_selected:
  "spool_id s = Some i \<Longrightarrow>
   set_active_spool MISSING r s =
     ([DbInsert None, SendEvent None, Log (SettingActive None)], s\<lparr>spool_id := None\<rparr>)"
  by (simp add: set_active_spool_def Let_def)

lemma clear_unselected:
  "spool_id s = None \<Longrightarrow> set_active_spool MISSING r s = ([Log (AlreadySet None)], s)"
  by (simp add: set_active_spool_def Let_def)

text \<open>
  Claim C4. A 404 reply to the liveness check clears the selection inline, with one
  persistence write and one notification. A 404 error reply to a usage flush records
  the task \<open>set_active_spool(MISSING)\<close> and leaves the selection to that task; run on
  the state the flush left, the task clears the selection with one persistence write
  and one notification. A clear when nothing is selected only logs: no request, no
  persistence write, no notification, and the state is unchanged; so running the task
  a second time changes nothing.
\<close>

theorem not_found_clears_once:
  "(spool_id s = Some i \<and> status_code r = 404 \<longrightarrow>
      check_spool_deleted r s =
        ([Http (GetSpool i), Log (SpoolNotFound (Some i)),
          DbInsert None, SendEvent None, Log (SettingActive None)],
         s\<lparr>spool_id := None\<rparr>)) \<and>
   (spool_id s = Some i \<and> extruded s > 0 \<and> ws_connected s \<and>
    has_error r \<and> status_code r = 404 \<longrightarrow>
      track_filament_usage r s =
        ([Log (SendingUsage i (extruded s)), Http (UseLength i (extruded s)),
          Log (SpoolNotFound (Some i)), CreateTask (SetActiveSpoolTask MISSING)],
         s\<lparr>error_logged := False\<rparr>) \<and>
      run_task (SetActiveSpoolTask MISSING) r' (snd (track_filament_usage r s)) =
        ([DbInsert None, SendEvent None, Log (SettingActive None)],
         s\<lparr>error_logged := False, spool_id := None\<rparr>) \<and>
      run_task (SetActiveSpoolTask MISSING) r''
          (snd (run_task (SetActiveSpoolTask MISSING) r' (snd (track_filament_usage r s)))) =
        ([Log (AlreadySet None)], s\<lparr>error_logged := False, spool_id := None\<rparr>)) \<and>
   (spool_id s = None \<longrightarrow> set_active_spool MISSING r s = ([Log (AlreadySet None)], s))"
proof (intro conjI impI)
  assume "spool_id s = Some i \<and> status_code r = 404"
  then show "check_spool_deleted r s =
        ([Http (GetSpool i), Log (SpoolNotFound (Some i)),
          DbInsert None, SendEvent None, Log (SettingActive None)],
         s\<lparr>spool_id := None\<rparr>)"
    by (simp add: check_spool_deleted_def clear_selected)
next
  assume a: "spool_id s = Some i \<and> extruded s > 0 \<and> ws_connected s \<and>
             has_error r \<and> status_code r = 404"
  then show t: "track_filament_usage r s =
        ([Log (SendingUsage i (extruded s)), Http (UseLength i (extruded s)),
          Log (SpoolNotFound (Some i)), CreateTask (SetActiveSpoolTask MISSING)],
         s\<lparr>error_logged := False\<rparr>)"
    by (simp add: track_filament_usage_def Let_def)
  have sel: "spool_id (s\<lparr>error_logged := False\<rparr>) = Some i"
    using a by simp
  have c: "set_active_spool MISSING r' (s\<lparr>error_logged := False\<rparr>) =
        ([DbInsert None, SendEvent None, Log (SettingActive None)],
         s\<lparr>error_logged := False, spool_id := None\<rparr>)"
    using clear_selected[OF sel, of r'] by simp
  have d: "set_active_spool MISSING r'' (s\<lparr>error_logged := False, spool_id := None\<rparr>) =
        ([Log (AlreadySet None)], s\<lparr>error_logged := False, spool_id := None\<rparr>)"
    by (rule clear_unselected) simp
  show "run_task (SetActiveSpoolTask MISSING) r' (snd (track_filament_usage r s)) =
        ([DbInsert None, SendEvent None, Log (SettingActive None)],
         s\<lparr>error_logged := False, spool_id := None\<rparr>)"
    by (simp add: t c)
  show "run_task (SetActiveSpoolTask MISSING) r''
          (snd (run_task (SetActiveSpoolTask MISSING) r' (snd (track_filament_usage r s)))) =
        ([Log (AlreadySet None)], s\<lparr>error_logged := False, spool_id := None\<rparr>)"
    by (simp add: t c d)
next
  assume "spool_id s = None"
  then show "set_active_spool MISSING r s = ([Log (AlreadySet None)], s)"
    by (rule clear_unselected)
qed

theorem not_found_clears_once_witness:
  "spool_id tracking = Some 1 \<and> status_code (error_response 404) = 404 \<and>
   has_error (error_response 404) \<and> extruded tracking > 0 \<and> ws_connected tracking \<and>
   check_spool_deleted (error_response 404) tracking =
     ([Http (GetSpool 1), Log (SpoolNotFound (Some 1)),
       DbInsert None, SendEvent None, Log (SettingActive None)],
      tracking\<lparr>spool_id := None\<rparr>) \<and>
   track_filament_usage (error_response 404) tracking =
     ([Log (SendingUsage 1 5), Http (UseLength 1 5),
       Log (SpoolNotFound (Some 1)), CreateTask (SetActiveSpoolTask MISSING)],
      tracking\<lparr>error_logged := False\<rparr>) \<and>
   run_task (SetActiveSpoolTask MISSING) ok_response
       (snd (track_filament_usage (error_response 404) tracking)) =
     ([DbInsert None, SendEvent None, Log (SettingActive None)],
      tracking\<lparr>error_logged := False, spool_id := None\<rparr>) \<and>
   spool_id (init [] 5 0) = None \<and>
   set_active_spool MISSING ok_response (init [] 5 0) = ([Log (AlreadySet None)], init [] 5 0)"
proof -
  have h: "spool_id tracking = Some 1" "status_code (error_response 404) = 404"
          "has_error (error_response 404)" "extruded tracking > 0" "ws_connected tracking"
    by (simp_all add: tracking_def error_response_def init_def)
  have e: "extruded tracking = 5"
    by (simp add: tracking_def)
  have n: "spool_id (init [] 5 0) = None"
    by (simp add: init_def)
  note T = not_found_clears_once[of tracking 1 "error_response 404" ok_response ok_response]
  note U = not_found_clears_once[of "init [] 5 0" 1 ok_response ok_response ok_response]
  from T h have c1: "check_spool_deleted (error_response 404) tracking =
     ([Http (GetSpool 1), Log (SpoolNotFound (Some 1)),
       DbInsert None, SendEvent None, Log (SettingActive None)],
      tracking\<lparr>spool_id := None\<rparr>)"
    by blast
  from T h have c2: "track_filament_usage (error_response 404) tracking =
     ([Log (SendingUsage 1 (extruded tracking)), Http (UseLength 1 (extruded tracking)),
       Log (SpoolNotFound (Some 1)), CreateTask (SetActiveSpoolTask MISSING)],
      tracking\<lparr>error_logged := False\<rparr>)"
    by blast
  from T h have c3: "run_task (SetActiveSpoolTask MISSING) ok_response
       (snd (track_filament_usage (error_response 404) tracking)) =
     ([DbInsert None, SendEvent None, Log (SettingActive None)],
      tracking\<lparr>error_logged := False, spool_id := None\<rparr>)"
    by blast
  from U n have c4: "set_active_spool MISSING ok_response (init [] 5 0) =
     ([Log (AlreadySet None)], init [] 5 0)"
    by blast
  show ?thesis
    by (intro conjI h n c1 c2[unfolded e] c3 c4)
qed

section \<open>Switching the active spool\<close>

text \<open>
  Claim C5, as stated, fails: the flush before a switch may send nothing (not
  connected) or be refused, and the amount pending for the old spool is then still
  pending once the new spool is active.
\<close>

theorem switch_leaves_pending_counterexample:
  "spool_id (tracking\<lparr>ws_connected := False\<rparr>) = Some 1 \<and>
   extruded (tracking\<lparr>ws_connected := False\<rparr>) = 5 \<and>
   set_active_spool (Given (Some 2)) ok_response (tracking\<lparr>ws_connected := False\<rparr>) =
     ([DbInsert (Some 2), SendEvent (Some 2), Log (SettingActive (Some 2))],
      tracking\<lparr>ws_connected := False, spool_id := Some 2\<rparr>) \<and>
   extruded (snd (set_active_spool (Given (Some 2)) ok_response
                    (tracking\<lparr>ws_connected := False\<rparr>))) = 5 \<and>
   spool_id tracking = Some 1 \<and> extruded tracking = 5 \<and> ws_connected tracking \<and>
   spool_id (snd (set_active_spool (Given (Some 2)) (error_response 500) tracking)) = Some 2 \<and>
   extruded (snd (set_active_spool (Given (Some 2)) (error_response 500) tracking)) = 5"
  by (simp add: tracking_def init_def set_active_spool_def track_filament_usage_def
                error_response_def ok_response_def Let_def)

text \<open>
  Claim C5, amended. On a switch from a selected spool \<open>a\<close> to a different spool \<open>b\<close>
  that is not a deletion, the flush for \<open>a\<close> runs first: whatever it does precedes
  the persistence write and the notification for \<open>b\<close>, and \<open>b\<close> becomes the selection
  in the state the flush left. When the pending amount is positive, the connection is
  live and the reply is not an error, that amount is sent for \<open>a\<close> and \<open>b\<close> starts with
  nothing pending. On a switch from no spool to a spool, no request is sent and the
  pending amount is reset to zero.
\<close>

theorem switch_flushes_then_selects:
  "(spool_id s = Some a \<and> a \<noteq> b \<longrightarrow>
      set_active_spool (Given (Some b)) r s =
        (fst (track_filament_usage r s) @
           [DbInsert (Some b), SendEvent (Some b), Log (SettingActive (Some b))],
         (snd (track_filament_usage r s))\<lparr>spool_id := Some b\<rparr>)) \<and>
   (spool_id s = Some a \<and> a \<noteq> b \<and> extruded s > 0 \<and> ws_connected s \<and> \<not> has_error r \<longrightarrow>
      set_active_spool (Given (Some b)) r s =
        ([Log (SendingUsage a (extruded s)), Http (UseLength a (extruded s)),
          DbInsert (Some b), SendEvent (Some b), Log (SettingActive (Some b))],
         s\<lparr>error_logged := False, extruded := 0, spool_id := Some b\<rparr>)) \<and>
   (spool_id s = None \<longrightarrow>
      set_active_spool (Given (Some b)) r s =
        ([DbInsert (Some b), SendEvent (Some b), Log (SettingActive (Some b))],
         s\<lparr>extruded := 0, spool_id := Some b\<rparr>))"
  by (auto simp: set_active_spool_def track_filament_usage_def Let_def split_def)

theorem switch_flushes_then_selects_witness:
  "spool_id tracking = Some 1 \<and> (1::int) \<noteq> 2 \<and> extruded tracking > 0 \<and>
   ws_connected tracking \<and> \<not> has_error ok_response \<and>
   set_active_spool (Given (Some 2)) ok_response tracking =
     ([Log (SendingUsage 1 5), Http (UseLength 1 5),
       DbInsert (Some 2), SendEvent (Some 2), Log (SettingActive (Some 2))],
      tracking\<lparr>error_logged := False, extruded := 0, spool_id := Some 2\<rparr>) \<and>
   spool_id ((init [] 5 0)\<lparr>extruded := 3\<rparr>) = None \<and>
   set_active_spool (Given (Some 2)) ok_response ((init [] 5 0)\<lparr>extruded := 3\<rparr>) =
     ([DbInsert (Some 2), SendEvent (Some 2), Log (SettingActive (Some 2))],
      (init [] 5 0)\<lparr>extruded := 0, spool_id := Some 2\<rparr>)"
proof -
  have h: "spool_id tracking = Some 1" "(1::int) \<noteq> 2" "extruded tracking > 0"
          "ws_connected tracking" "\<not> has_error ok_response"
    by (simp_all add: tracking_def ok_response_def init_def)
  have e: "extruded tracking = 5"
    by (simp add: tracking_def)
  have n: "spool_id ((init [] 5 0)\<lparr>extruded := 3\<rparr>) = None"
    by (simp add: init_def)
  note T = switch_flushes_then_selects[of tracking 1 2 ok_response]
  note U = switch_flushes_then_selects[of "(init [] 5 0)\<lparr>extruded := 3\<rparr>" 1 2 ok_response]
  from T h have c1: "set_active_spool (Given (Some 2)) ok_response tracking =
     ([Log (SendingUsage 1 (extruded tracking)), Http (UseLength 1 (extruded tracking)),
       DbInsert (Some 2), SendEvent (Some 2), Log (SettingActive (Some 2))],
      tracking\<lparr>error_logged := False, extruded := 0, spool_id := Some 2\<rparr>)"
    by blast
  from U n have "set_active_spool (Given (Some 2)) ok_response ((init [] 5 0)\<lparr>extruded := 3\<rparr>) =
     ([DbInsert (Some 2), SendEvent (Some 2), Log (SettingActive (Some 2))],
      (init [] 5 0)\<lparr>extruded := 3, extruded := 0, spool_id := Some 2\<rparr>)"
    by blast
  then have c2: "set_active_spool (Given (Some 2)) ok_response ((init [] 5 0)\<lparr>extruded := 3\<rparr>) =
     ([DbInsert (Some 2), SendEvent (Some 2), Log (SettingActive (Some 2))],
      (init [] 5 0)\<lparr>extruded := 0, spool_id := Some 2\<rparr>)"
    by simp
  show ?thesis
    by (intro conjI h n c1[unfolded e] c2)
qed

section \<open>Selecting the current selection\<close>

text \<open>
  Claim C6. Selecting what is already selected (a spool id equal to the current one,
  \<open>None\<close> or the deletion sentinel when nothing is selected) only logs: no flush, no
  persistence write, no notification, and the state is unchanged.
\<close>

theorem select_same_is_noop:
  assumes "spool_id s = (case arg of MISSING \<Rightarrow> None | Given i \<Rightarrow> i)"
  shows "set_active_spool arg r s = ([Log (AlreadySet (spool_id s))], s)"
  using assms
  by (auto simp: set_active_spool_def Let_def split: spool_arg.splits)

theorem select_same_is_noop_witness:
  "spool_id tracking = (case Given (Some 1) of MISSING \<Rightarrow> None | Given i \<Rightarrow> i) \<and>
   set_active_spool (Given (Some 1)) ok_response tracking = ([Log (AlreadySet (Some 1))], tracking) \<and>
   spool_id (init [] 5 0) = (case Given None of MISSING \<Rightarrow> None | Given i \<Rightarrow> i) \<and>
   set_active_spool (Given None) ok_response (init [] 5 0) =
     ([Log (AlreadySet None)], init [] 5 0)"
proof -
  have a: "spool_id tracking = (case Given (Some 1) of MISSING \<Rightarrow> None | Given i \<Rightarrow> i)"
    by (simp add: tracking_def)
  have b: "spool_id (init [] 5 0) = (case Given None of MISSING \<Rightarrow> None | Given i \<Rightarrow> i)"
    by (simp add: init_def)
  have c: "spool_id tracking = Some 1" "spool_id (init [] 5 0) = None"
    by (simp_all add: tracking_def init_def)
  from select_same_is_noop[OF a, of ok_response] select_same_is_noop[OF b, of ok_response] a b c
  show ?thesis
    by simp
qed

section \<open>The proxy gateway: validation\<close>

lemma path_check_prefix:
  "(length path < 4 \<or> take 4 path \<noteq> ''/v1/'') = (\<not> prefix ''/v1/'' path)"
proof -
  have a: "prefix ''/v1/'' path = (take 4 path = ''/v1/'')"
  proof
    assume "prefix ''/v1/'' path"
    then obtain zs where "path = ''/v1/'' @ zs"
      by (auto simp: prefix_def)
    then show "take 4 path = ''/v1/''"
      by simp
  next
    assume "take 4 path = ''/v1/''"
    then have "path = ''/v1/'' @ drop 4 path"
      by (metis append_take_drop_id)
    then show "prefix ''/v1/'' path"
      by (metis prefixI)
  qed
  have b: "take 4 path \<noteq> ''/v1/''" if "length path < 4"
  proof
    assume "take 4 path = ''/v1/''"
    then have "length (take 4 path) = 4"
      by simp
    with that show False
      by simp
  qed
  show ?thesis
    using a b by auto
qed

text \<open>
  Claim C7. A request whose method is not one of GET, POST, PUT, PATCH, DELETE, or that
  is a GET with a body, or whose path does not begin with \<open>/v1/\<close>, is answered with a
  server error, with no effect performed (no request sent) and the state unchanged. A
  request that passes these checks while the connection is not live is answered with
  the error "Spoolman server not available" carrying the status 503, which no
  validation error carries, again with no effect and the state unchanged.
\<close>

theorem proxy_rejects_before_forwarding:
  "(method \<notin> {''GET'', ''POST'', ''PUT'', ''PATCH'', ''DELETE''} \<or>
    (body \<noteq> None \<and> method = ''GET'') \<or> \<not> prefix ''/v1/'' path \<longrightarrow>
      (\<exists>msg. proxy_spoolman_request method path query body r s =
                ([], s, Inl (ServerError msg None)))) \<and>
   (method \<in> {''GET'', ''POST'', ''PUT'', ''PATCH'', ''DELETE''} \<and>
    \<not> (body \<noteq> None \<and> method = ''GET'') \<and> prefix ''/v1/'' path \<and> \<not> ws_connected s \<longrightarrow>
      proxy_spoolman_request method path query body r s =
        ([], s, Inl (ServerError ''Spoolman server not available'' (Some 503))))"
  using path_check_prefix[of path]
  by (auto simp: proxy_spoolman_request_def Let_def)

theorem proxy_rejects_before_forwarding_witness:
  "''TRACE'' \<notin> {''GET'', ''POST'', ''PUT'', ''PATCH'', ''DELETE''} \<and>
   (\<exists>msg. proxy_spoolman_request ''TRACE'' ''/v1/spool/1'' None None ok_response tracking =
            ([], tracking, Inl (ServerError msg None))) \<and>
   Some (JObject []) \<noteq> None \<and>
   (\<exists>msg. proxy_spoolman_request ''GET'' ''/v1/spool/1'' None (Some (JObject [])) ok_response
              tracking = ([], tracking, Inl (ServerError msg None))) \<and>
   \<not> prefix ''/v1/'' ''/v2/spool/1'' \<and>
   (\<exists>msg. proxy_spoolman_request ''POST'' ''/v2/spool/1'' None None ok_response tracking =
            ([], tracking, Inl (ServerError msg None))) \<and>
   ''GET'' \<in> {''GET'', ''POST'', ''PUT'', ''PATCH'', ''DELETE''} \<and>
   prefix ''/v1/'' ''/v1/spool/1'' \<and> \<not> ws_connected (init [] 5 0) \<and>
   proxy_spoolman_request ''GET'' ''/v1/spool/1'' None None ok_response (init [] 5 0) =
     ([], init [] 5 0, Inl (ServerError ''Spoolman server not available'' (Some 503)))"
proof -
  have m: "''TRACE'' \<notin> {''GET'', ''POST'', ''PUT'', ''PATCH'', ''DELETE''}"
    by simp
  have b: "Some (JObject []) \<noteq> None"
    by simp
  have p: "\<not> prefix ''/v1/'' ''/v2/spool/1''"
    by simp
  have g: "''GET'' \<in> {''GET'', ''POST'', ''PUT'', ''PATCH'', ''DELETE''}"
    by simp
  have q: "prefix ''/v1/'' ''/v1/spool/1''"
    by simp
  have d: "\<not> ws_connected (init [] 5 0)"
    by (simp add: init_def)
  from proxy_rejects_before_forwarding[of "''TRACE''" None "''/v1/spool/1''" None ok_response tracking] m
  have c1: "\<exists>msg. proxy_spoolman_request ''TRACE'' ''/v1/spool/1'' None None ok_response tracking =
            ([], tracking, Inl (ServerError msg None))"
    by blast
  from proxy_rejects_before_forwarding[of "''GET''" "Some (JObject [])" "''/v1/spool/1''" None
         ok_response tracking] b
  have c2: "\<exists>msg. proxy_spoolman_request ''GET'' ''/v1/spool/1'' None (Some (JObject [])) ok_response
              tracking = ([], tracking, Inl (ServerError msg None))"
    by blast
  from proxy_rejects_before_forwarding[of "''POST''" None "''/v2/spool/1''" None ok_response tracking] p
  have c3: "\<exists>msg. proxy_spoolman_request ''POST'' ''/v2/spool/1'' None None ok_response tracking =
            ([], tracking, Inl (ServerError msg None))"
    by blast
  from proxy_rejects_before_forwarding[of "''GET''" None "''/v1/spool/1''" None ok_response
         "init [] 5 0"] g q d
  have c4: "proxy_spoolman_request ''GET'' ''/v1/spool/1'' None None ok_response (init [] 5 0) =
     ([], init [] 5 0, Inl (ServerError ''Spoolman server not available'' (Some 503)))"
    by blast
  show ?thesis
    by (intro conjI m b p g q d c1 c2 c3 c4)
qed

section \<open>The event decoder\<close>

text \<open>
  Claim C8, as stated, fails: a text message whose decoded value is not an object,
  or a deletion event for the tracked type whose payload is not an object, makes the
  decoder raise.
\<close>

theorem decode_raises_counterexample:
  "decode_event (JArray []) tracking = Inl AttributeError \<and>
   decode_event (JObject [(''resource'', JString ''spool''), (''type'', JString ''deleted''),
                          (''payload'', JNull)]) tracking = Inl AttributeError"
  by (simp add: decode_event_def py_eq_str_def tracking_def)

text \<open>
  Claim C8, amended. For every text message that decodes to an object, unless the
  event is a deletion of the tracked type received while a spool is selected and
  carries a payload that is not an object, the decoder does not raise and records the
  task that clears the selection (without running it) exactly when the resource is
  the tracked type, the type is "deleted" and the payload id equals the selected spool
  id, a spool being selected; every other such event, whatever other fields, event
  type or payload it has, is ignored, and so is every event whose resource is not the
  tracked type.
\<close>

theorem decode_message_object:
  "loads message = Inr (JObject ev) \<longrightarrow>
     (\<not> py_eq_str (map_of ev ''resource'') ''spool'' \<longrightarrow> decode_message loads message s = Inr []) \<and>
     (payload_is_object ev \<or> \<not> payload_consulted ev s \<longrightarrow>
        decode_message loads message s =
          Inr (if deletes_selected ev s then [CreateTask (SetActiveSpoolTask MISSING)] else []))"
  by (auto simp: decode_message_def decode_event_def deletes_selected_def payload_is_object_def
                 payload_of_def payload_consulted_def
           split: option.splits json.splits)

theorem decode_message_object_witness:
  "payload_is_object [(''resource'', JString ''spool''), (''type'', JString ''deleted''),
                      (''payload'', JObject [(''id'', JInt 1), (''note'', JNull)])] \<and>
   decode_message
       (\<lambda>m. Inr (JObject [(''resource'', JString ''spool''), (''type'', JString ''deleted''),
                           (''payload'', JObject [(''id'', JInt 1), (''note'', JNull)])]))
       ''{}'' tracking =
     Inr [CreateTask (SetActiveSpoolTask MISSING)] \<and>
   payload_is_object [(''resource'', JString ''spool''), (''type'', JString ''deleted''),
                      (''payload'', JObject [(''id'', JInt 2)])] \<and>
   decode_message
       (\<lambda>m. Inr (JObject [(''resource'', JString ''spool''), (''type'', JString ''deleted''),
                           (''payload'', JObject [(''id'', JInt 2)])]))
       ''{}'' tracking = Inr [] \<and>
   \<not> payload_is_object [(''resource'', JString ''spool''), (''type'', JString ''updated''),
                        (''payload'', JInt 7)] \<and>
   \<not> payload_consulted [(''resource'', JString ''spool''), (''type'', JString ''updated''),
                        (''payload'', JInt 7)] tracking \<and>
   decode_message
       (\<lambda>m. Inr (JObject [(''resource'', JString ''spool''), (''type'', JString ''updated''),
                           (''payload'', JInt 7)]))
       ''{}'' tracking = Inr [] \<and>
   \<not> payload_is_object [(''resource'', JString ''spool''), (''type'', JString ''deleted''),
                        (''payload'', JNull)] \<and>
   \<not> payload_consulted [(''resource'', JString ''spool''), (''type'', JString ''deleted''),
                        (''payload'', JNull)] (init [] 5 0) \<and>
   decode_message
       (\<lambda>m. Inr (JObject [(''resource'', JString ''spool''), (''type'', JString ''deleted''),
                           (''payload'', JNull)]))
       ''{}'' (init [] 5 0) = Inr [] \<and>
   \<not> py_eq_str (map_of [(''resource'', JString ''filament''), (''type'', JString ''deleted''),
                         (''payload'', JNull)] ''resource'') ''spool'' \<and>
   decode_message
       (\<lambda>m. Inr (JObject [(''resource'', JString ''filament''), (''type'', JString ''deleted''),
                           (''payload'', JNull)]))
       ''{}'' tracking = Inr []"
proof -
  let ?del1 = "[(''resource'', JString ''spool''), (''type'', JString ''deleted''),
                (''payload'', JObject [(''id'', JInt 1), (''note'', JNull)])]"
  let ?del2 = "[(''resource'', JString ''spool''), (''type'', JString ''deleted''),
                (''payload'', JObject [(''id'', JInt 2)])]"
  let ?upd = "[(''resource'', JString ''spool''), (''type'', JString ''updated''),
               (''payload'', JInt 7)]"
  let ?nul = "[(''resource'', JString ''spool''), (''type'', JString ''deleted''),
               (''payload'', JNull)]"
  let ?fil = "[(''resource'', JString ''filament''), (''type'', JString ''deleted''),
               (''payload'', JNull)]"
  have p1: "payload_is_object ?del1" and p2: "payload_is_object ?del2"
    and p3: "\<not> payload_is_object ?upd" and p5: "\<not> payload_is_object ?nul"
    by (simp_all add: payload_is_object_def)
  have q3: "\<not> payload_consulted ?upd tracking"
    and q5: "\<not> payload_consulted ?nul (init [] 5 0)"
    by (simp_all add: payload_consulted_def py_eq_str_def init_def)
  have p4: "\<not> py_eq_str (map_of ?fil ''resource'') ''spool''"
    by (simp add: py_eq_str_def)
  have d1: "deletes_selected ?del1 tracking" and d2: "\<not> deletes_selected ?del2 tracking"
    and d3: "\<not> deletes_selected ?upd tracking"
    and d5: "\<not> deletes_selected ?nul (init [] 5 0)"
    by (simp_all add: deletes_selected_def payload_of_def py_eq_str_def py_eq_int_def
                      tracking_def init_def)
  from decode_message_object[of "\<lambda>m. Inr (JObject ?del1)" "''{}''" ?del1 tracking] p1 d1
  have c1: "decode_message (\<lambda>m. Inr (JObject ?del1)) ''{}'' tracking =
              Inr [CreateTask (SetActiveSpoolTask MISSING)]"
    by simp
  from decode_message_object[of "\<lambda>m. Inr (JObject ?del2)" "''{}''" ?del2 tracking] p2 d2
  have c2: "decode_message (\<lambda>m. Inr (JObject ?del2)) ''{}'' tracking = Inr []"
    by simp
  from decode_message_object[of "\<lambda>m. Inr (JObject ?upd)" "''{}''" ?upd tracking] q3 d3
  have c3: "decode_message (\<lambda>m. Inr (JObject ?upd)) ''{}'' tracking = Inr []"
    by simp
  from decode_message_object[of "\<lambda>m. Inr (JObject ?nul)" "''{}''" ?nul "init [] 5 0"] q5 d5
  have c5: "decode_message (\<lambda>m. Inr (JObject ?nul)) ''{}'' (init [] 5 0) = Inr []"
    by simp
  from decode_message_object[of "\<lambda>m. Inr (JObject ?fil)" "''{}''" ?fil tracking] p4
  have c4: "decode_message (\<lambda>m. Inr (JObject ?fil)) ''{}'' tracking = Inr []"
    by simp
  show ?thesis
    by (intro conjI p1 p2 p3 p4 p5 q3 q5 c1 c2 c3 c4 c5)
qed

section \<open>When a flush is triggered\<close>




section \<open>Start of tracking\<close>

text \<open>
  Claim C10. When the subscription result holds an extruder position \<open>p\<close> (a position
  list of more than three entries), the ready handler returns normally, having set the
  highest position to \<open>p\<close> and nothing else: the pending amount is untouched, a later
  sample at \<open>p\<close> adds nothing, and any later sample counts from \<open>p\<close>, not from zero.
  When the result holds no such position, the handler raises the server error "Unable
  to subscribe to e position".
\<close>

theorem ready_sets_baseline_or_raises:
  "(eposition_from_status result = Some p \<longrightarrow>
      handle_klippy_ready result s =
        ([Log (InitialEpos (Some p))], Inr (s\<lparr>highest_epos := p\<rparr>)) \<and>
      observe (Some p) (s\<lparr>highest_epos := p\<rparr>) = s\<lparr>highest_epos := p\<rparr> \<and>
      extruded (observe (Some q) (s\<lparr>highest_epos := p\<rparr>)) =
        extruded s + (if q \<noteq> 0 \<and> q > p then q - p else 0)) \<and>
   (eposition_from_status result = None \<longrightarrow>
      snd (handle_klippy_ready result s) =
        Inl (ServerError ''Unable to subscribe to e position'' None))"
  by (auto simp: handle_klippy_ready_def observe_def advances_def accumulate_def Let_def)

theorem ready_sets_baseline_or_raises_witness:
  "eposition_from_status (toolhead_at 120) = Some 120 \<and>
   handle_klippy_ready (toolhead_at 120) (init [] 5 0) =
     ([Log (InitialEpos (Some 120))], Inr ((init [] 5 0)\<lparr>highest_epos := 120\<rparr>)) \<and>
   extruded (observe (Some 120) ((init [] 5 0)\<lparr>highest_epos := 120\<rparr>)) = 0 \<and>
   extruded (observe (Some 123) ((init [] 5 0)\<lparr>highest_epos := 120\<rparr>)) = 3 \<and>
   eposition_from_status [(''toolhead'', [(''position'', [0, 0, 0])])] = None \<and>
   snd (handle_klippy_ready [(''toolhead'', [(''position'', [0, 0, 0])])] (init [] 5 0)) =
     Inl (ServerError ''Unable to subscribe to e position'' None)"
proof -
  have a: "eposition_from_status (toolhead_at 120) = Some 120"
    by (simp add: eposition_from_status_def toolhead_at_def)
  have b: "eposition_from_status [(''toolhead'', [(''position'', [0, 0, 0])])] = None"
    by (simp add: eposition_from_status_def)
  have e: "extruded (init [] 5 0) = 0"
    by (simp add: init_def)
  from ready_sets_baseline_or_raises[of "toolhead_at 120" 120 "init [] 5 0" 120] a
  have c1: "handle_klippy_ready (toolhead_at 120) (init [] 5 0) =
     ([Log (InitialEpos (Some 120))], Inr ((init [] 5 0)\<lparr>highest_epos := 120\<rparr>))"
    and c2: "extruded (observe (Some 120) ((init [] 5 0)\<lparr>highest_epos := 120\<rparr>)) = 0"
    by (simp_all add: e)
  from ready_sets_baseline_or_raises[of "toolhead_at 120" 120 "init [] 5 0" 123] a
  have c3: "extruded (observe (Some 123) ((init [] 5 0)\<lparr>highest_epos := 120\<rparr>)) = 3"
    by (simp add: e)
  from ready_sets_baseline_or_raises[of "[(''toolhead'', [(''position'', [0, 0, 0])])]" 0
         "init [] 5 0" 0] b
  have c4: "snd (handle_klippy_ready [(''toolhead'', [(''position'', [0, 0, 0])])] (init [] 5 0)) =
     Inl (ServerError ''Unable to subscribe to e position'' None)"
    by simp
  show ?thesis
    by (intro conjI a b c1 c2 c3 c4)
qed

end
